theory Spec2Isabelle
  imports Main "HOL-Library.Sublist" "HOL-Library.Word"
begin

section \<open>Shared data: profiles, responses, runtime services\<close>

text \<open>
  The edge functions under \<open>supabase/functions\<close> are request handlers over one persisted
  table, \<open>profiles\<close>, keyed by \<open>user_id\<close>. A handler is modelled as a function from its
  configuration, the outcomes of the external calls it makes, the request and the table
  to the response and the table afterwards. String literals are the ones of the source.
\<close>

type_synonym byte = "8 word"

record profile =
  subscription_status :: string
  subscription_tier :: string
  subscription_expires_at :: "string option"
  revenuecat_user_id :: "string option"
  updated_at :: string

type_synonym profiles = "string \<rightharpoonup> profile"

text \<open>
  The outcome of the calls on the Supabase client: \<open>select_error\<close> is an error of
  \<open>.select(...).single()\<close> whose code is not \<open>PGRST116\<close> (no row found is decided by the
  table itself), \<open>update_error\<close> is the \<open>error\<close> of \<open>.update(...).eq(...)\<close>; each
  carries the error's message.
\<close>

record supabase =
  select_error :: "string option"
  update_error :: "string option"

text \<open>
  \<open>supabase.from('profiles').update(values).eq('user_id', uid)\<close>: the rows whose
  \<open>user_id\<close> is \<open>uid\<close> get the values; no matching row is no error. A call that
  reports an error changes nothing. The result is the error, if any, and the table.
\<close>

definition update_eq :: "supabase \<Rightarrow> (profile \<Rightarrow> profile) \<Rightarrow> string \<Rightarrow> profiles \<Rightarrow> string option \<times> profiles" where
  "update_eq sb values uid rows =
     (case update_error sb of
        Some msg \<Rightarrow> (Some msg, rows)
      | None \<Rightarrow> (None, (case rows uid of None \<Rightarrow> rows | Some p \<Rightarrow> rows(uid \<mapsto> values p))))"

text \<open>A JSON response body, as the object literal handed to \<open>JSON.stringify\<close>.\<close>

datatype jval = JBool bool | JStr string | JNull

record response =
  status :: nat
  body :: "(string \<times> jval) list option"

definition json_response :: "nat \<Rightarrow> (string \<times> jval) list \<Rightarrow> response" where
  "json_response st obj = \<lparr>status = st, body = Some obj\<rparr>"

definition success_of :: "response \<Rightarrow> jval option" where
  "success_of r = (case body r of None \<Rightarrow> None | Some obj \<Rightarrow> map_of obj ''success'')"

text \<open>JavaScript's \<open>!v\<close> on a value that is a string, \<open>undefined\<close> or \<open>null\<close>.\<close>

definition falsy :: "string option \<Rightarrow> bool" where
  "falsy v = (case v of None \<Rightarrow> True | Some s \<Rightarrow> s = [])"

text \<open>\<open>a || null\<close> on a string \<open>a\<close>.\<close>

definition or_null :: "string \<Rightarrow> string option" where
  "or_null a = (if a = [] then None else Some a)"

text \<open>A thrown \<open>Error\<close>, with its message.\<close>

datatype exn = Error string

fun message :: "exn \<Rightarrow> string" where
  "message (Error m) = m"

text \<open>
  \<open>Date\<close> objects: \<open>new Date(s)\<close> never throws and may be an invalid date;
  \<open>toISOString\<close> throws a \<open>RangeError\<close> on an invalid one.
\<close>

datatype js_date = InvalidDate | ValidDate int

datatype crypto_key = CryptoKey "byte list"

text \<open>
  What the Deno runtime provides and the source calls: \<open>TextEncoder.encode\<close>,
  \<open>JSON.parse\<close> of a webhook body into the fields the handler reads (\<open>Inl\<close>: it throws,
  as does reading \<open>event.event.type\<close> of a body without an \<open>event\<close> object),
  \<open>new Date(s)\<close>, the ISO text of a valid time value, and the clock.
\<close>

record revenuecat_event =
  event_type :: string
  app_user_id :: string
  product_id :: string
  expires_date :: "string option"

record platform =
  encode :: "string \<Rightarrow> byte list"
  json_parse :: "string \<Rightarrow> exn + revenuecat_event"
  date_parse :: "string \<Rightarrow> js_date"
  iso_text :: "int \<Rightarrow> string"
  now_ms :: int

definition toISOString :: "platform \<Rightarrow> js_date \<Rightarrow> exn + string" where
  "toISOString pf d =
     (case d of InvalidDate \<Rightarrow> Inl (Error ''Invalid time value'')
      | ValidDate t \<Rightarrow> Inr (iso_text pf t))"

text \<open>\<open>new Date(ms)\<close>: a time value beyond 8.64e15 ms of the epoch is an invalid date.\<close>

definition date_of_ms :: "int \<Rightarrow> js_date" where
  "date_of_ms t = (if \<bar>t\<bar> \<le> 8640000000000000 then ValidDate t else InvalidDate)"

section \<open>revenuecat-webhook: the signature verifier\<close>

text \<open>\<open>n.toString(16)\<close> and \<open>s.padStart(2, '0')\<close>.\<close>

definition hex_digit :: "nat \<Rightarrow> char" where
  "hex_digit d = ''0123456789abcdef'' ! d"

function toString16 :: "nat \<Rightarrow> string" where
  "toString16 n = (if n < 16 then [hex_digit n] else toString16 (n div 16) @ [hex_digit (n mod 16)])"
  by pat_completeness auto
termination
  by (relation "measure id") auto

declare toString16.simps [simp del]

definition padStart :: "nat \<Rightarrow> char \<Rightarrow> string \<Rightarrow> string" where
  "padStart n c s = replicate (n - length s) c @ s"

definition hex_of_bytes :: "byte list \<Rightarrow> string" where
  "hex_of_bytes signatureArray = concat (map (\<lambda>b. padStart 2 (CHR ''0'') (toString16 (unat b))) signatureArray)"

text \<open>
  A \<open>SubtleCrypto\<close> object, as far as the verifier would use one: \<open>importKey\<close> and
  \<open>sign\<close> for HMAC with SHA-256 (\<open>None\<close>: the promise rejects).
\<close>

record subtle_crypto =
  importKey :: "byte list \<Rightarrow> crypto_key option"
  sign :: "crypto_key \<Rightarrow> byte list \<Rightarrow> byte list option"

text \<open>
  The value of \<open>crypto.subtle\<close> in the webhook. Line 3,
  \<open>import * as crypto from 'https://deno.land/std@0.177.0/crypto/mod.ts'\<close>, binds the name
  \<open>crypto\<close> to the namespace object of that library module and shadows the Web Crypto
  global. The module exports an object called \<open>crypto\<close> (the one that has a \<open>subtle\<close>)
  and helper functions; it has no export called \<open>subtle\<close>. So \<open>crypto.subtle\<close> is
  \<open>undefined\<close>, here \<open>None\<close>.
\<close>

definition crypto_subtle :: "subtle_crypto option" where
  "crypto_subtle = None"

text \<open>
  \<open>verifySignature(payload, signature, secretKey)\<close>: the whole body is inside
  \<open>try\<close>, and the \<open>catch\<close> returns \<open>false\<close>. Reading \<open>importKey\<close> from an undefined
  \<open>crypto.subtle\<close> throws a \<open>TypeError\<close>, which the \<open>catch\<close> answers like every other
  exception.
\<close>

definition verifySignature :: "platform \<Rightarrow> string \<Rightarrow> string \<Rightarrow> string \<Rightarrow> bool" where
  "verifySignature pf payload signature secretKey =
     (let key = encode pf secretKey in
      case crypto_subtle of
        None \<Rightarrow> False
      | Some subtle \<Rightarrow>
          (case importKey subtle key of
             None \<Rightarrow> False
           | Some hmacKey \<Rightarrow>
               (let payloadBytes = encode pf payload in
                case sign subtle hmacKey payloadBytes of
                  None \<Rightarrow> False
                | Some signatureBytes \<Rightarrow>
                    (let calculatedSignature = hex_of_bytes signatureBytes
                     in calculatedSignature = signature))))"

section \<open>revenuecat-webhook: the handler\<close>

text \<open>The process environment, read with \<open>Deno.env.get\<close>.\<close>

record deno_env =
  REVENUECAT_SECRET_API_KEY :: "string option"
  SUPABASE_URL :: "string option"
  SUPABASE_SERVICE_ROLE_KEY :: "string option"
  STRIPE_SECRET_KEY :: "string option"
  STRIPE_PRICE_ID_MONTHLY :: "string option"
  STRIPE_PRICE_ID_YEARLY :: "string option"
  APP_URL_var :: "string option"

record webhook_request =
  req_method :: string
  x_signature :: "string option"
  req_text :: string

text \<open>\<open>String.prototype.includes\<close>.\<close>

fun str_includes :: "string \<Rightarrow> string \<Rightarrow> bool" where
  "str_includes [] needle = (needle = [])"
| "str_includes (c # s) needle = (prefix needle (c # s) \<or> str_includes s needle)"

text \<open>
  \<open>event.event.expires_date ? new Date(event.event.expires_date) : null\<close>, then
  \<open>expiresDate?.toISOString() || null\<close>.
\<close>

definition expiresDate_of :: "platform \<Rightarrow> revenuecat_event \<Rightarrow> js_date option" where
  "expiresDate_of pf e =
     (if falsy (expires_date e) then None else Some (date_parse pf (the (expires_date e))))"

definition expires_iso :: "platform \<Rightarrow> js_date option \<Rightarrow> exn + string option" where
  "expires_iso pf expiresDate =
     (case expiresDate of
        None \<Rightarrow> Inr None
      | Some d \<Rightarrow> (case toISOString pf d of Inl e \<Rightarrow> Inl e | Inr s \<Rightarrow> Inr (or_null s)))"

definition tier_of_product :: "string \<Rightarrow> string" where
  "tier_of_product productId =
     (let isYearly = str_includes productId ''yearly'' \<or> str_includes productId ''annual''
      in if isYearly then ''premium_plus'' else ''premium'')"

text \<open>
  The \<open>switch\<close> on the event type. \<open>Inl\<close> is an exception leaving the \<open>try\<close> block;
  \<open>Inr\<close> is falling out of the \<open>switch\<close>.
\<close>

definition handle_event :: "platform \<Rightarrow> supabase \<Rightarrow> revenuecat_event \<Rightarrow> profiles \<Rightarrow> (exn + unit) \<times> profiles" where
  "handle_event pf sb e rows =
     (if event_type e \<in> {''INITIAL_PURCHASE'', ''RENEWAL'', ''RESTORE'', ''NON_RENEWING_PURCHASE''} then
        (let userId = app_user_id e;
             productId = product_id e;
             expiresDate = expiresDate_of pf e;
             tier = tier_of_product productId
         in case expires_iso pf expiresDate of
              Inl ex \<Rightarrow> (Inl ex, rows)
            | Inr expires \<Rightarrow>
                (case update_eq sb
                        (\<lambda>p. p\<lparr>subscription_status := ''premium'',
                                subscription_tier := tier,
                                subscription_expires_at := expires,
                                revenuecat_user_id := Some userId,
                                updated_at := iso_text pf (now_ms pf)\<rparr>)
                        userId rows of
                   (Some updateError, rows') \<Rightarrow> (Inl (Error ''Failed to update user profile''), rows')
                 | (None, rows') \<Rightarrow> (Inr (), rows')))
      else if event_type e \<in> {''CANCELLATION'', ''EXPIRATION'', ''BILLING_ISSUE''} then
        (let userId = app_user_id e;
             expiresDate = expiresDate_of pf e
         in case expires_iso pf expiresDate of
              Inl ex \<Rightarrow> (Inl ex, rows)
            | Inr expires \<Rightarrow>
                (case update_eq sb
                        (\<lambda>p. p\<lparr>subscription_status :=
                                  (if event_type e = ''CANCELLATION'' then ''cancelled'' else ''expired''),
                                subscription_expires_at := expires,
                                updated_at := iso_text pf (now_ms pf)\<rparr>)
                        userId rows of
                   (Some updateError, rows') \<Rightarrow> (Inl (Error ''Failed to update user profile''), rows')
                 | (None, rows') \<Rightarrow> (Inr (), rows')))
      else (Inr (), rows))"

definition error_response :: "nat \<Rightarrow> string \<Rightarrow> response" where
  "error_response st msg = json_response st [(''success'', JBool False), (''error'', JStr msg)]"

definition revenuecat_webhook :: "deno_env \<Rightarrow> platform \<Rightarrow> supabase \<Rightarrow> webhook_request \<Rightarrow> profiles \<Rightarrow> response \<times> profiles" where
  "revenuecat_webhook env pf sb req rows =
     (if req_method req = ''OPTIONS'' then (\<lparr>status = 200, body = None\<rparr>, rows)
      else if falsy (REVENUECAT_SECRET_API_KEY env) \<or> falsy (SUPABASE_URL env)
              \<or> falsy (SUPABASE_SERVICE_ROLE_KEY env) then
        (error_response 500 ''Missing required environment variables'', rows)
      else if req_method req \<noteq> ''POST'' then
        (error_response 405 ''Method not allowed. Use POST.'', rows)
      else if falsy (x_signature req) then
        (error_response 400 ''Missing RevenueCat signature'', rows)
      else
        (let signature = the (x_signature req);
             body = req_text req;
             isValidSignature = verifySignature pf body signature (the (REVENUECAT_SECRET_API_KEY env))
         in if \<not> isValidSignature then
              (error_response 400 ''Webhook signature verification failed'', rows)
            else
              (case json_parse pf body of
                 Inl ex \<Rightarrow> (error_response 500 (message ex), rows)
               | Inr event \<Rightarrow>
                   (case handle_event pf sb event rows of
                      (Inl ex, rows') \<Rightarrow> (error_response 500 (message ex), rows')
                    | (Inr u, rows') \<Rightarrow>
                        (json_response 200 [(''success'', JBool True), (''received'', JBool True)], rows')))))"

section \<open>The billing provider's SDK\<close>

text \<open>
  The Stripe objects, as far as the handlers read them, and the outcome of each SDK call
  (\<open>Inl\<close>: the call throws). \<open>item_price_ids\<close> lists \<open>items.data[i].price.id\<close>.
\<close>

record checkout_session =
  payment_status :: string
  session_status :: "string option"
  session_subscription :: "string option"

record subscription =
  item_price_ids :: "string list"
  current_period_end :: int

record customer_params =
  cp_email :: string
  cp_name :: string
  cp_metadata :: "(string \<times> string) list"

record session_params =
  sp_customer :: string
  sp_payment_method_types :: "string list"
  sp_line_items :: "(string \<times> nat) list"
  sp_mode :: string
  sp_trial_period_days :: nat
  sp_subscription_metadata :: "(string \<times> string) list"
  sp_success_url :: string
  sp_cancel_url :: string
  sp_metadata :: "(string \<times> string) list"

record stripe =
  checkout_sessions_retrieve :: "string \<Rightarrow> exn + checkout_session option"
  subscriptions_retrieve :: "string \<Rightarrow> exn + subscription"
  customers_retrieve :: "string \<Rightarrow> exn + unit"
  customers_create :: "customer_params \<Rightarrow> exn + string"
  checkout_sessions_create :: "session_params \<Rightarrow> exn + string \<times> string"

text \<open>The calls a handler makes that reach the provider's customer and session objects.\<close>

datatype stripe_call =
  CustomersRetrieve string
| CustomersCreate customer_params
| CheckoutSessionsCreate session_params

fun is_create :: "stripe_call \<Rightarrow> bool" where
  "is_create (CustomersCreate ps) = True"
| "is_create c = False"

section \<open>verify-subscription\<close>

record verify_request =
  vr_sessionId :: "string option"
  vr_userId :: "string option"

text \<open>A request with a JSON body: \<open>req.json()\<close> rejects (\<open>Inl\<close>) or gives the object.\<close>

record 'a json_request =
  jr_method :: string
  jr_json :: "exn + 'a"

definition jnullable :: "string option \<Rightarrow> jval" where
  "jnullable v = (case v of None \<Rightarrow> JNull | Some s \<Rightarrow> JStr s)"

text \<open>
  The inner \<open>try\<close> block, from the retrieval of the session on; every exception in it
  is answered by the inner \<open>catch\<close> with the same 500.
\<close>

definition verify_session :: "deno_env \<Rightarrow> platform \<Rightarrow> stripe \<Rightarrow> supabase \<Rightarrow> string \<Rightarrow> string \<Rightarrow> profiles \<Rightarrow> response \<times> profiles" where
  "verify_session env pf st sb sessionId userId rows =
     (let stripeError = (error_response 500 ''Failed to verify subscription status'', rows) in
      case checkout_sessions_retrieve st sessionId of
        Inl ex \<Rightarrow> stripeError
      | Inr None \<Rightarrow> (error_response 400 ''Invalid session ID'', rows)
      | Inr (Some session) \<Rightarrow>
          if payment_status session \<noteq> ''paid'' \<and> session_status session \<noteq> Some ''complete'' then
            (json_response 200
               [(''success'', JBool False), (''error'', JStr ''Payment not completed''),
                (''session_status'', jnullable (session_status session)),
                (''payment_status'', JStr (payment_status session))], rows)
          else if falsy (session_subscription session) then
            (error_response 400 ''No subscription found in session'', rows)
          else
            (case subscriptions_retrieve st (the (session_subscription session)) of
               Inl ex \<Rightarrow> stripeError
             | Inr sub \<Rightarrow>
                 (case item_price_ids sub of
                    [] \<Rightarrow> stripeError
                  | priceId # others \<Rightarrow>
                      (let isMonthly = (STRIPE_PRICE_ID_MONTHLY env = Some priceId);
                           tier = (if isMonthly then ''premium'' else ''premium_plus'')
                       in case toISOString pf (date_of_ms (current_period_end sub * 1000)) of
                            Inl ex \<Rightarrow> stripeError
                          | Inr expires \<Rightarrow>
                              (case update_eq sb
                                      (\<lambda>p. p\<lparr>subscription_status := ''premium'',
                                              subscription_tier := tier,
                                              subscription_expires_at := Some expires,
                                              updated_at := iso_text pf (now_ms pf)\<rparr>)
                                      userId rows of
                                 (Some updateError, rows') \<Rightarrow>
                                   (error_response 500 ''Failed to update user profile with subscription info'', rows')
                               | (None, rows') \<Rightarrow>
                                   (json_response 200
                                      [(''success'', JBool True),
                                       (''subscription_status'', JStr ''premium''),
                                       (''subscription_tier'', JStr tier),
                                       (''subscription_expires_at'', JStr expires)], rows'))))))"

definition verify_subscription :: "deno_env \<Rightarrow> platform \<Rightarrow> stripe \<Rightarrow> supabase \<Rightarrow> verify_request json_request \<Rightarrow> profiles \<Rightarrow> response \<times> profiles" where
  "verify_subscription env pf st sb req rows =
     (if jr_method req = ''OPTIONS'' then (\<lparr>status = 200, body = None\<rparr>, rows)
      else if falsy (STRIPE_SECRET_KEY env) then
        (error_response 500 ''Stripe secret key is not configured'', rows)
      else if falsy (SUPABASE_URL env) \<or> falsy (SUPABASE_SERVICE_ROLE_KEY env) then
        (error_response 500 ''Supabase credentials are not configured'', rows)
      else if jr_method req \<noteq> ''POST'' then
        (error_response 405 ''Method not allowed. Use POST.'', rows)
      else
        (case jr_json req of
           Inl ex \<Rightarrow> (error_response 500 ''An unexpected error occurred'', rows)
         | Inr requestData \<Rightarrow>
             if falsy (vr_sessionId requestData) \<or> falsy (vr_userId requestData) then
               (error_response 400 ''Session ID and User ID are required'', rows)
             else verify_session env pf st sb (the (vr_sessionId requestData))
                    (the (vr_userId requestData)) rows))"

section \<open>create-checkout-session\<close>

record checkout_request =
  cr_priceId :: "string option"
  cr_userId :: "string option"
  cr_email :: "string option"
  cr_name :: "string option"

text \<open>\<open>xs.join(sep)\<close>, \<open>email.split('@')[0]\<close> and the decimal text of a number.\<close>

fun join :: "string \<Rightarrow> string list \<Rightarrow> string" where
  "join sep [] = []"
| "join sep [x] = x"
| "join sep (x # y # ys) = x @ sep @ join sep (y # ys)"

definition split_at_0 :: "string \<Rightarrow> string" where
  "split_at_0 email = takeWhile (\<lambda>c. c \<noteq> CHR ''@'') email"

function toString10 :: "nat \<Rightarrow> string" where
  "toString10 n = (if n < 10 then [hex_digit n] else toString10 (n div 10) @ [hex_digit (n mod 10)])"
  by pat_completeness auto
termination
  by (relation "measure id") auto

declare toString10.simps [simp del]

definition num_text :: "int \<Rightarrow> string" where
  "num_text t = (if t < 0 then CHR ''-'' # toString10 (nat (- t)) else toString10 (nat t))"

definition APP_URL :: "deno_env \<Rightarrow> string" where
  "APP_URL env = (if falsy (APP_URL_var env) then ''http://localhost:5173'' else the (APP_URL_var env))"

definition missingVars :: "deno_env \<Rightarrow> string list" where
  "missingVars env =
     (if falsy (STRIPE_SECRET_KEY env) then [''STRIPE_SECRET_KEY''] else []) @
     (if falsy (SUPABASE_URL env) then [''SUPABASE_URL''] else []) @
     (if falsy (SUPABASE_SERVICE_ROLE_KEY env) then [''SUPABASE_SERVICE_ROLE_KEY''] else []) @
     (if falsy (STRIPE_PRICE_ID_MONTHLY env) then [''STRIPE_PRICE_ID_MONTHLY''] else []) @
     (if falsy (STRIPE_PRICE_ID_YEARLY env) then [''STRIPE_PRICE_ID_YEARLY''] else [])"

text \<open>
  Customer resolution (lines 157 to 216): the stored id is checked with the provider when
  there is one; any exception of the retrieval counts as not found. Without an existing
  customer one is created and its id is written to the profile; an error of that write
  is logged and the new id is used all the same. \<open>Inl\<close>: the creation threw.
\<close>

definition resolve_customer :: "stripe \<Rightarrow> supabase \<Rightarrow> string \<Rightarrow> string \<Rightarrow> string option \<Rightarrow> profile option \<Rightarrow> profiles
    \<Rightarrow> (exn + string) \<times> profiles \<times> stripe_call list" where
  "resolve_customer st sb userId email name profile rows =
     (let customerId = (case profile of None \<Rightarrow> None | Some p \<Rightarrow> revenuecat_user_id p);
          checked =
            (if \<not> falsy customerId then
               (case customers_retrieve st (the customerId) of
                  Inr u \<Rightarrow> (True, [CustomersRetrieve (the customerId)])
                | Inl stripeError \<Rightarrow> (False, [CustomersRetrieve (the customerId)]))
             else (False, []));
          customerExists = fst checked;
          calls = snd checked
      in if \<not> customerExists then
           (let ps = \<lparr>cp_email = email,
                      cp_name = (if falsy name then split_at_0 email else the name),
                      cp_metadata = [(''userId'', userId)]\<rparr>
            in case customers_create st ps of
                 Inl stripeError \<Rightarrow> (Inl stripeError, rows, calls @ [CustomersCreate ps])
               | Inr customer_id \<Rightarrow>
                   (let written = update_eq sb (\<lambda>p. p\<lparr>revenuecat_user_id := Some customer_id\<rparr>) userId rows
                    in (Inr customer_id, snd written, calls @ [CustomersCreate ps])))
         else (Inr (the customerId), rows, calls))"

definition checkout_params :: "deno_env \<Rightarrow> platform \<Rightarrow> string \<Rightarrow> string \<Rightarrow> string \<Rightarrow> session_params" where
  "checkout_params env pf customerId priceId userId =
     \<lparr>sp_customer = customerId,
      sp_payment_method_types = [''card''],
      sp_line_items = [(priceId, 1)],
      sp_mode = ''subscription'',
      sp_trial_period_days = 7,
      sp_subscription_metadata = [(''userId'', userId)],
      sp_success_url = APP_URL env @ ''/home?subscription=success&session_id={CHECKOUT_SESSION_ID}&t=''
                         @ num_text (now_ms pf),
      sp_cancel_url = APP_URL env @ ''/premium?subscription=canceled&t='' @ num_text (now_ms pf),
      sp_metadata = [(''userId'', userId)]\<rparr>"

definition create_checkout_session :: "deno_env \<Rightarrow> platform \<Rightarrow> stripe \<Rightarrow> supabase \<Rightarrow> checkout_request json_request \<Rightarrow> profiles
    \<Rightarrow> response \<times> profiles \<times> stripe_call list" where
  "create_checkout_session env pf st sb req rows =
     (if jr_method req = ''OPTIONS'' then (\<lparr>status = 200, body = None\<rparr>, rows, [])
      else if missingVars env \<noteq> [] then
        (error_response 500 (''Missing required environment variables: '' @ join '', '' (missingVars env)
            @ ''. Please configure these in your Supabase project settings.''), rows, [])
      else if jr_method req \<noteq> ''POST'' then
        (error_response 405 ''Method not allowed. Use POST.'', rows, [])
      else
        (case jr_json req of
           Inl ex \<Rightarrow> (error_response 500 (message ex), rows, [])
         | Inr requestData \<Rightarrow>
             if falsy (cr_priceId requestData) \<or> falsy (cr_userId requestData) \<or> falsy (cr_email requestData) then
               (error_response 400 ''Missing required fields: priceId, userId, and email are required'', rows, [])
             else
               (let priceId = the (cr_priceId requestData);
                    userId = the (cr_userId requestData);
                    email = the (cr_email requestData)
                in if Some priceId \<noteq> STRIPE_PRICE_ID_MONTHLY env \<and> Some priceId \<noteq> STRIPE_PRICE_ID_YEARLY env then
                     (error_response 400 (''Invalid price ID: '' @ priceId @ ''. Expected one of: ''
                         @ the (STRIPE_PRICE_ID_MONTHLY env) @ '', '' @ the (STRIPE_PRICE_ID_YEARLY env)), rows, [])
                   else if select_error sb \<noteq> None then
                     (error_response 500 ''Failed to fetch user profile from database'', rows, [])
                   else
                     (case resolve_customer st sb userId email (cr_name requestData) (rows userId) rows of
                        (Inl stripeError, rows', calls) \<Rightarrow>
                          (error_response 500 ''Failed to create Stripe customer'', rows', calls)
                      | (Inr customerId, rows', calls) \<Rightarrow>
                          (let ps = checkout_params env pf customerId priceId userId
                           in case checkout_sessions_create st ps of
                                Inl stripeError \<Rightarrow>
                                  (error_response 500 (message stripeError), rows', calls @ [CheckoutSessionsCreate ps])
                              | Inr (url, session_id) \<Rightarrow>
                                  (json_response 200
                                     [(''success'', JBool True), (''url'', JStr url), (''session_id'', JStr session_id)],
                                   rows', calls @ [CheckoutSessionsCreate ps]))))))"

section \<open>create-stripe-customer\<close>

text \<open>The \<open>record\<close> of the signup webhook's payload.\<close>

record auth_record =
  record_id :: "string option"
  record_email :: "string option"
  record_user_metadata_name :: "string option"

definition create_stripe_customer :: "deno_env \<Rightarrow> stripe \<Rightarrow> supabase \<Rightarrow> auth_record option json_request \<Rightarrow> profiles
    \<Rightarrow> response \<times> profiles \<times> stripe_call list" where
  "create_stripe_customer env st sb req rows =
     (if jr_method req = ''OPTIONS'' then (\<lparr>status = 200, body = None\<rparr>, rows, [])
      else if falsy (STRIPE_SECRET_KEY env) then
        (error_response 500 ''STRIPE_SECRET_KEY is not configured'', rows, [])
      else if falsy (SUPABASE_URL env) \<or> falsy (SUPABASE_SERVICE_ROLE_KEY env) then
        (error_response 500 ''Supabase credentials are not configured'', rows, [])
      else
        (case jr_json req of
           Inl ex \<Rightarrow> (error_response 500 (message ex), rows, [])
         | Inr None \<Rightarrow> (error_response 400 ''Invalid webhook payload. Missing user data.'', rows, [])
         | Inr (Some record) \<Rightarrow>
             if falsy (record_id record) \<or> falsy (record_email record) then
               (error_response 400 ''Invalid webhook payload. Missing user data.'', rows, [])
             else
               (let id = the (record_id record); email = the (record_email record) in
                case select_error sb of
                  Some msg \<Rightarrow> (error_response 500 (''Failed to fetch user profile: '' @ msg), rows, [])
                | None \<Rightarrow>
                    (let profile = rows id;
                         stored = (case profile of None \<Rightarrow> None | Some p \<Rightarrow> revenuecat_user_id p)
                     in if \<not> falsy stored then
                          (json_response 200
                             [(''success'', JBool True),
                              (''message'', JStr ''User already has a Stripe customer ID''),
                              (''customerId'', JStr (the stored))], rows, [])
                        else
                          (let ps = \<lparr>cp_email = email,
                                     cp_name = (if falsy (record_user_metadata_name record)
                                                then split_at_0 email
                                                else the (record_user_metadata_name record)),
                                     cp_metadata = [(''supabase_user_id'', id)]\<rparr>
                           in case customers_create st ps of
                                Inl ex \<Rightarrow> (error_response 500 (message ex), rows, [CustomersCreate ps])
                              | Inr customer_id \<Rightarrow>
                                  (case update_eq sb (\<lambda>p. p\<lparr>revenuecat_user_id := Some customer_id\<rparr>) id rows of
                                     (Some msg, rows') \<Rightarrow>
                                       (error_response 500 (''Failed to update user profile: '' @ msg), rows',
                                        [CustomersCreate ps])
                                   | (None, rows') \<Rightarrow>
                                       (json_response 200
                                          [(''success'', JBool True),
                                           (''message'', JStr ''Stripe customer created and linked to user profile''),
                                           (''customerId'', JStr customer_id)], rows',
                                        [CustomersCreate ps])))))))"

section \<open>A concrete deployment\<close>

text \<open>
  One configuration, runtime, provider and table on which the handlers are evaluated.
  \<open>demo_json_parse\<close> reads the four webhook bodies below and throws on any other text.
  Each \<open>_signature\<close> is the hex text of the HMAC with SHA-256 of the body of the same
  name under the configured secret \<open>whsec\<close>: the header of a correctly signed delivery.
\<close>

definition demo_env :: deno_env where
  "demo_env =
     \<lparr>REVENUECAT_SECRET_API_KEY = Some ''whsec'',
      SUPABASE_URL = Some ''https://db.example'',
      SUPABASE_SERVICE_ROLE_KEY = Some ''service-role'',
      STRIPE_SECRET_KEY = Some ''sk_test'',
      STRIPE_PRICE_ID_MONTHLY = Some ''price_m'',
      STRIPE_PRICE_ID_YEARLY = Some ''price_y'',
      APP_URL_var = None\<rparr>"

definition demo_purchase_body :: string where
  \<open>demo_purchase_body = ''{"event":{"type":"INITIAL_PURCHASE","app_user_id":"user-1","product_id":"yearly_premium","expires_date":"2025-07-22T00:00:00Z"}}''\<close>

definition demo_renewal_body :: string where
  \<open>demo_renewal_body = ''{"event":{"type":"RENEWAL","app_user_id":"user-2","product_id":"monthly_premium"}}''\<close>

definition demo_cancellation_body :: string where
  \<open>demo_cancellation_body = ''{"event":{"type":"CANCELLATION","app_user_id":"user-2","product_id":"monthly_premium","expires_date":"2025-07-22T00:00:00Z"}}''\<close>

definition demo_expiration_body :: string where
  \<open>demo_expiration_body = ''{"event":{"type":"EXPIRATION","app_user_id":"user-2","product_id":"monthly_premium"}}''\<close>

definition demo_purchase :: revenuecat_event where
  "demo_purchase = \<lparr>event_type = ''INITIAL_PURCHASE'', app_user_id = ''user-1'',
     product_id = ''yearly_premium'', expires_date = Some ''2025-07-22T00:00:00Z''\<rparr>"

definition demo_renewal :: revenuecat_event where
  "demo_renewal = \<lparr>event_type = ''RENEWAL'', app_user_id = ''user-2'',
     product_id = ''monthly_premium'', expires_date = None\<rparr>"

definition demo_cancellation :: revenuecat_event where
  "demo_cancellation = \<lparr>event_type = ''CANCELLATION'', app_user_id = ''user-2'',
     product_id = ''monthly_premium'', expires_date = Some ''2025-07-22T00:00:00Z''\<rparr>"

definition demo_expiration :: revenuecat_event where
  "demo_expiration = \<lparr>event_type = ''EXPIRATION'', app_user_id = ''user-2'',
     product_id = ''monthly_premium'', expires_date = None\<rparr>"

definition demo_json_parse :: "string \<Rightarrow> exn + revenuecat_event" where
  "demo_json_parse text =
     (if text = demo_purchase_body then Inr demo_purchase
      else if text = demo_renewal_body then Inr demo_renewal
      else if text = demo_cancellation_body then Inr demo_cancellation
      else if text = demo_expiration_body then Inr demo_expiration
      else Inl (Error ''Unexpected token in JSON''))"

definition demo_purchase_signature :: string where
  "demo_purchase_signature = ''400a3b5bcac5e036d5a77b2e4d02622c03114b3eda16de71817342ff24c77724''"

definition demo_renewal_signature :: string where
  "demo_renewal_signature = ''9f0b3b153455e46206b3fb96772379fd2f7b6c0a18ab627d8773239ffa565227''"

definition demo_cancellation_signature :: string where
  "demo_cancellation_signature = ''b153cb13ba4f6ffe26691f7a3262160243d0dce6cd0248b4c8ec431b7bd0c7ad''"

definition demo_date_parse :: "string \<Rightarrow> js_date" where
  "demo_date_parse text = (if text = ''2025-07-22T00:00:00Z'' then ValidDate 1753142400000 else InvalidDate)"

definition demo_iso_text :: "int \<Rightarrow> string" where
  "demo_iso_text t =
     (if t = 1753142400000 then ''2025-07-22T00:00:00.000Z''
      else if t = 1750000000000 then ''2025-06-15T15:06:40.000Z''
      else ''1970-01-01T00:00:00.000Z'')"

definition demo_platform :: platform where
  "demo_platform =
     \<lparr>encode = map of_char,
      json_parse = demo_json_parse,
      date_parse = demo_date_parse,
      iso_text = demo_iso_text,
      now_ms = 1750000000000\<rparr>"

definition demo_supabase :: supabase where
  "demo_supabase = \<lparr>select_error = None, update_error = None\<rparr>"

text \<open>A store that rejects every update.\<close>

definition failing_store :: supabase where
  "failing_store = \<lparr>select_error = None, update_error = Some ''connection lost''\<rparr>"

definition free_profile :: profile where
  "free_profile =
     \<lparr>subscription_status = ''free'', subscription_tier = ''free'', subscription_expires_at = None,
      revenuecat_user_id = None, updated_at = ''2025-06-01T00:00:00.000Z''\<rparr>"

definition paying_profile :: profile where
  "paying_profile =
     \<lparr>subscription_status = ''premium'', subscription_tier = ''premium_plus'',
      subscription_expires_at = Some ''2025-06-30T00:00:00.000Z'',
      revenuecat_user_id = Some ''cus_1'', updated_at = ''2025-06-01T00:00:00.000Z''\<rparr>"

definition stale_profile :: profile where
  "stale_profile = free_profile\<lparr>revenuecat_user_id := Some ''cus_gone''\<rparr>"

definition demo_rows :: profiles where
  "demo_rows = [''user-1'' \<mapsto> free_profile, ''user-2'' \<mapsto> paying_profile, ''user-3'' \<mapsto> stale_profile]"

definition demo_sessions_retrieve :: "string \<Rightarrow> exn + checkout_session option" where
  "demo_sessions_retrieve sessionId =
     (if sessionId = ''cs_open'' then
        Inr (Some \<lparr>payment_status = ''unpaid'', session_status = Some ''open'', session_subscription = None\<rparr>)
      else if sessionId = ''cs_unpaid_complete'' then
        Inr (Some \<lparr>payment_status = ''unpaid'', session_status = Some ''complete'', session_subscription = Some ''sub_m''\<rparr>)
      else if sessionId = ''cs_monthly'' then
        Inr (Some \<lparr>payment_status = ''paid'', session_status = Some ''complete'', session_subscription = Some ''sub_m''\<rparr>)
      else if sessionId = ''cs_other'' then
        Inr (Some \<lparr>payment_status = ''paid'', session_status = Some ''complete'', session_subscription = Some ''sub_x''\<rparr>)
      else Inl (Error ''No such checkout.session''))"

definition demo_subscriptions_retrieve :: "string \<Rightarrow> exn + subscription" where
  "demo_subscriptions_retrieve subscriptionId =
     (if subscriptionId = ''sub_m'' then Inr \<lparr>item_price_ids = [''price_m''], current_period_end = 1753142400\<rparr>
      else if subscriptionId = ''sub_x'' then Inr \<lparr>item_price_ids = [''price_legacy''], current_period_end = 1753142400\<rparr>
      else Inl (Error ''No such subscription''))"

definition demo_stripe :: stripe where
  "demo_stripe =
     \<lparr>checkout_sessions_retrieve = demo_sessions_retrieve,
      subscriptions_retrieve = demo_subscriptions_retrieve,
      customers_retrieve = (\<lambda>customerId. if customerId = ''cus_1'' then Inr () else Inl (Error ''No such customer'')),
      customers_create = (\<lambda>ps. Inr ''cus_new''),
      checkout_sessions_create = (\<lambda>ps. Inr (''https://checkout.example/cs_new'', ''cs_new''))\<rparr>"

definition webhook_post :: "string \<Rightarrow> string \<Rightarrow> webhook_request" where
  "webhook_post signature text = \<lparr>req_method = ''POST'', x_signature = Some signature, req_text = text\<rparr>"

definition verify_post :: "string \<Rightarrow> string \<Rightarrow> verify_request json_request" where
  "verify_post sessionId userId =
     \<lparr>jr_method = ''POST'', jr_json = Inr \<lparr>vr_sessionId = Some sessionId, vr_userId = Some userId\<rparr>\<rparr>"

definition checkout_body :: "string \<Rightarrow> string \<Rightarrow> checkout_request" where
  "checkout_body priceId userId =
     \<lparr>cr_priceId = Some priceId, cr_userId = Some userId,
      cr_email = Some ''ann@example.org'', cr_name = None\<rparr>"

definition checkout_post :: "string \<Rightarrow> string \<Rightarrow> checkout_request json_request" where
  "checkout_post priceId userId = \<lparr>jr_method = ''POST'', jr_json = Inr (checkout_body priceId userId)\<rparr>"

definition signup_post :: "string \<Rightarrow> auth_record option json_request" where
  "signup_post userId =
     \<lparr>jr_method = ''POST'',
      jr_json = Inr (Some \<lparr>record_id = Some userId, record_email = Some ''ann@example.org'',
                            record_user_metadata_name = None\<rparr>)\<rparr>"

section \<open>Requests that pass the handlers' gates\<close>

text \<open>The configuration the webhook checks before anything else.\<close>

definition webhook_configured :: "deno_env \<Rightarrow> bool" where
  "webhook_configured env \<longleftrightarrow>
     \<not> falsy (REVENUECAT_SECRET_API_KEY env) \<and> \<not> falsy (SUPABASE_URL env)
     \<and> \<not> falsy (SUPABASE_SERVICE_ROLE_KEY env)"

text \<open>The three subscription fields of each profile of a table.\<close>

definition subscription_fields :: "profiles \<Rightarrow> string \<Rightarrow> (string \<times> string \<times> string option) option" where
  "subscription_fields rows u =
     map_option (\<lambda>p. (subscription_status p, subscription_tier p, subscription_expires_at p)) (rows u)"

text \<open>
  A verification request that reaches the retrieval of the checkout session: configured,
  a POST, with both ids.
\<close>

definition verify_reaches :: "deno_env \<Rightarrow> verify_request json_request \<Rightarrow> string \<Rightarrow> string \<Rightarrow> bool" where
  "verify_reaches env req sessionId userId \<longleftrightarrow>
     \<not> falsy (STRIPE_SECRET_KEY env) \<and> \<not> falsy (SUPABASE_URL env) \<and> \<not> falsy (SUPABASE_SERVICE_ROLE_KEY env)
     \<and> jr_method req = ''POST''
     \<and> jr_json req = Inr \<lparr>vr_sessionId = Some sessionId, vr_userId = Some userId\<rparr>
     \<and> sessionId \<noteq> [] \<and> userId \<noteq> []"

text \<open>
  A checkout request that reaches customer resolution: configured, a POST, the three
  required fields, an allowed price id, and the profile lookup without a hard error.
\<close>

definition checkout_reaches :: "deno_env \<Rightarrow> supabase \<Rightarrow> checkout_request json_request \<Rightarrow> checkout_request \<Rightarrow> bool" where
  "checkout_reaches env sb req rd \<longleftrightarrow>
     missingVars env = [] \<and> jr_method req = ''POST'' \<and> jr_json req = Inr rd
     \<and> \<not> falsy (cr_priceId rd) \<and> \<not> falsy (cr_userId rd) \<and> \<not> falsy (cr_email rd)
     \<and> (cr_priceId rd = STRIPE_PRICE_ID_MONTHLY env \<or> cr_priceId rd = STRIPE_PRICE_ID_YEARLY env)
     \<and> select_error sb = None"

definition stored_customer :: "profiles \<Rightarrow> string \<Rightarrow> string option" where
  "stored_customer rows userId = (case rows userId of None \<Rightarrow> None | Some p \<Rightarrow> revenuecat_user_id p)"

definition new_customer_params :: "checkout_request \<Rightarrow> customer_params" where
  "new_customer_params rd =
     \<lparr>cp_email = the (cr_email rd),
      cp_name = (if falsy (cr_name rd) then split_at_0 (the (cr_email rd)) else the (cr_name rd)),
      cp_metadata = [(''userId'', the (cr_userId rd))]\<rparr>"

text \<open>
  The operations that write the table, each with its configuration, the outcomes of its
  external calls and its request; \<open>run_op\<close> is the table after one of them.
\<close>

datatype operation =
  WebhookOp deno_env platform supabase webhook_request
| VerifyOp deno_env platform stripe supabase "verify_request json_request"
| CheckoutOp deno_env platform stripe supabase "checkout_request json_request"
| SignupOp deno_env stripe supabase "auth_record option json_request"

fun run_op :: "operation \<Rightarrow> profiles \<Rightarrow> profiles" where
  "run_op (WebhookOp env pf sb req) rows = snd (revenuecat_webhook env pf sb req rows)"
| "run_op (VerifyOp env pf st sb req) rows = snd (verify_subscription env pf st sb req rows)"
| "run_op (CheckoutOp env pf st sb req) rows = fst (snd (create_checkout_session env pf st sb req rows))"
| "run_op (SignupOp env st sb req) rows = fst (snd (create_stripe_customer env st sb req rows))"

definition has_customer_id :: "profiles \<Rightarrow> string \<Rightarrow> bool" where
  "has_customer_id rows u = (case rows u of None \<Rightarrow> False | Some p \<Rightarrow> revenuecat_user_id p \<noteq> None)"

section \<open>Properties of the signature verifier\<close>

lemma str_includes_iff_sublist: "str_includes s needle \<longleftrightarrow> sublist needle s"
  by (induction s) (auto simp: sublist_Cons_right)

lemma toString16_digit: "n < 16 \<Longrightarrow> toString16 n = [hex_digit n]"
  by (simp add: toString16.simps)

lemma toString16_byte: "16 \<le> n \<Longrightarrow> n < 256 \<Longrightarrow> toString16 n = [hex_digit (n div 16), hex_digit (n mod 16)]"
  by (subst toString16.simps) (simp add: toString16_digit less_mult_imp_div_less)

lemma hex_byte_length: "length (padStart 2 (CHR ''0'') (toString16 (unat (b :: byte)))) = 2"
proof -
  have "unat b < 256" using unsigned_less [of b] by simp
  then show ?thesis
    by (cases "unat b < 16") (simp_all add: padStart_def toString16_digit toString16_byte)
qed

lemma hex_of_bytes_length: "length (hex_of_bytes bs) = 2 * length bs"
  by (induction bs) (simp_all add: hex_of_bytes_def hex_byte_length del: One_nat_def)

lemmas hex_defs = hex_of_bytes_def padStart_def toString16.simps hex_digit_def

lemma hex_of_bytes_padded: "hex_of_bytes [0x0f, 0xa0, 0xff, 0x00] = ''0fa0ff00''"
  by (simp add: hex_defs)

text \<open>
  With \<open>crypto.subtle\<close> undefined, the first statement of the \<open>try\<close> block that touches
  it throws, and the verifier answers \<open>false\<close> whatever it is given.
\<close>

lemma verifySignature_False [simp]: "verifySignature pf payload signature secretKey = False"
  by (simp add: verifySignature_def crypto_subtle_def)

text \<open>
  Claim C5 does not hold of the code. The claim and the function's doc comment
  (\<open>@returns Whether the signature is valid\<close>) have \<open>verifySignature\<close> return true on the
  hex text of the HMAC of the raw body under the secret. As line 3 binds \<open>crypto\<close>, the
  function returns false on every payload, signature and secret; in particular on the
  purchase body with its true HMAC under the secret \<open>whsec\<close>. The other two parts of the
  claim hold: every other signature is rejected as well, and no exception leaves the
  function.
\<close>

theorem true_hmac_is_rejected:
  "\<not> verifySignature pf rawBody signature secretKey
   \<and> \<not> verifySignature demo_platform demo_purchase_body demo_purchase_signature ''whsec''"
  by (simp add: verifySignature_def crypto_subtle_def)

section \<open>Properties of the webhook event processor\<close>

text \<open>
  Since no signature verifies, the handler never reaches \<open>JSON.parse\<close> and the \<open>switch\<close>:
  it writes nothing, and a configured POST that carries a signature is answered 400.
\<close>

lemma webhook_never_writes: "snd (revenuecat_webhook env pf sb req rows) = rows"
  by (simp add: revenuecat_webhook_def)

lemma webhook_signed_post:
  assumes "webhook_configured env" and "req_method req = ''POST''" and "\<not> falsy (x_signature req)"
  shows "revenuecat_webhook env pf sb req rows =
           (error_response 400 ''Webhook signature verification failed'', rows)"
  using assms by (simp add: revenuecat_webhook_def webhook_configured_def)

text \<open>
  What the cases of the \<open>switch\<close> do with an event, were one to reach them: the purchase
  family and the cancellation family, for an expiry that converts and an update that the
  store accepts.
\<close>

lemma expires_iso_cases:
  "expires_iso pf (expiresDate_of pf e) = Inr x \<longleftrightarrow>
     (falsy (expires_date e) \<and> x = None) \<or>
     (\<exists>s t. expires_date e = Some s \<and> s \<noteq> [] \<and> date_parse pf s = ValidDate t \<and> x = or_null (iso_text pf t))"
  by (auto simp: expires_iso_def expiresDate_of_def toISOString_def falsy_def split: option.splits js_date.splits)

lemma handle_purchase:
  assumes "event_type e \<in> {''INITIAL_PURCHASE'', ''RENEWAL'', ''RESTORE'', ''NON_RENEWING_PURCHASE''}"
      and "expires_iso pf (expiresDate_of pf e) = Inr expires"
      and "update_error sb = None"
  shows "handle_event pf sb e rows =
           (Inr (), (case rows (app_user_id e) of None \<Rightarrow> rows
                     | Some p \<Rightarrow> rows(app_user_id e \<mapsto>
                         p\<lparr>subscription_status := ''premium'',
                           subscription_tier := tier_of_product (product_id e),
                           subscription_expires_at := expires,
                           revenuecat_user_id := Some (app_user_id e),
                           updated_at := iso_text pf (now_ms pf)\<rparr>)))"
  using assms by (simp add: handle_event_def update_eq_def Let_def)

lemma handle_cancel:
  assumes "event_type e \<in> {''CANCELLATION'', ''EXPIRATION'', ''BILLING_ISSUE''}"
      and "expires_iso pf (expiresDate_of pf e) = Inr expires"
      and "update_error sb = None"
  shows "handle_event pf sb e rows =
           (Inr (), (case rows (app_user_id e) of None \<Rightarrow> rows
                     | Some p \<Rightarrow> rows(app_user_id e \<mapsto>
                         p\<lparr>subscription_status := (if event_type e = ''CANCELLATION'' then ''cancelled'' else ''expired''),
                           subscription_expires_at := expires,
                           updated_at := iso_text pf (now_ms pf)\<rparr>)))"
  using assms by (auto simp add: handle_event_def update_eq_def Let_def)

lemma expires_iso_clock [simp]:
  "expires_iso (pf\<lparr>now_ms := t\<rparr>) (expiresDate_of (pf\<lparr>now_ms := t\<rparr>) e) = expires_iso pf (expiresDate_of pf e)"
  by (simp add: expires_iso_def expiresDate_of_def toISOString_def split: option.splits js_date.splits)

lemma handle_event_twice:
  "subscription_fields (snd (handle_event (pf\<lparr>now_ms := t\<rparr>) sb e (snd (handle_event pf sb e rows)))) u
     = subscription_fields (snd (handle_event pf sb e rows)) u"
proof (cases "expires_iso pf (expiresDate_of pf e)")
  case (Inl ex)
  then show ?thesis by (simp add: handle_event_def Let_def)
next
  case (Inr expires)
  show ?thesis
  proof (cases "update_error sb")
    case (Some msg)
    with Inr show ?thesis by (simp add: handle_event_def update_eq_def Let_def)
  next
    case None
    with Inr show ?thesis
      by (simp add: handle_event_def update_eq_def Let_def subscription_fields_def split: option.splits)
  qed
qed

lemma demo_configured: "webhook_configured demo_env"
  by (simp add: webhook_configured_def demo_env_def falsy_def)

lemma demo_expiry:
  "expires_iso demo_platform (expiresDate_of demo_platform demo_purchase) = Inr (Some ''2025-07-22T00:00:00.000Z'')"
  "expires_iso demo_platform (expiresDate_of demo_platform demo_cancellation) = Inr (Some ''2025-07-22T00:00:00.000Z'')"
  by (simp_all add: expires_iso_def expiresDate_of_def toISOString_def or_null_def falsy_def
        demo_platform_def demo_date_parse_def demo_iso_text_def demo_purchase_def demo_cancellation_def)

lemma demo_parsed:
  "json_parse demo_platform demo_purchase_body = Inr demo_purchase"
  "json_parse demo_platform demo_renewal_body = Inr demo_renewal"
  "json_parse demo_platform demo_cancellation_body = Inr demo_cancellation"
  by (simp_all add: demo_platform_def demo_json_parse_def demo_purchase_body_def demo_renewal_body_def
        demo_cancellation_body_def)

text \<open>
  Claim C2, as amended. A request whose \<open>X-Signature\<close> header is missing or empty, or
  whose signature fails verification against the raw body text under the configured
  secret, changes no profile, whatever its method and the configuration; the answer
  and the table do not depend on what \<open>JSON.parse\<close> would do with the body, so the
  body is not parsed before the signature is checked; and when the request is a POST
  and the three environment variables are set, the answer is a 400 with
  \<open>success: false\<close>.
\<close>

theorem unsigned_webhook_rejected:
  "falsy (x_signature req) \<or>
     (\<exists>signature secret. x_signature req = Some signature \<and> REVENUECAT_SECRET_API_KEY env = Some secret
        \<and> \<not> verifySignature pf (req_text req) signature secret) \<Longrightarrow>
   snd (revenuecat_webhook env pf sb req rows) = rows
   \<and> (\<forall>parse. revenuecat_webhook env (pf\<lparr>json_parse := parse\<rparr>) sb req rows = revenuecat_webhook env pf sb req rows)
   \<and> (req_method req = ''POST'' \<and> webhook_configured env \<longrightarrow>
        status (fst (revenuecat_webhook env pf sb req rows)) = 400
        \<and> success_of (fst (revenuecat_webhook env pf sb req rows)) = Some (JBool False))"
  by (auto simp: revenuecat_webhook_def webhook_configured_def error_response_def json_response_def success_of_def)

theorem unsigned_webhook_witness:
  "status (fst (revenuecat_webhook demo_env demo_platform demo_supabase
                  \<lparr>req_method = ''POST'', x_signature = None, req_text = demo_purchase_body\<rparr> demo_rows)) = 400
   \<and> status (fst (revenuecat_webhook demo_env demo_platform demo_supabase
                  (webhook_post ''1a99'' demo_purchase_body) demo_rows)) = 400
   \<and> snd (revenuecat_webhook demo_env demo_platform demo_supabase
                  (webhook_post ''1a99'' demo_purchase_body) demo_rows) = demo_rows"
proof -
  note conf = demo_configured
  have missing: "falsy (x_signature \<lparr>req_method = ''POST'', x_signature = None, req_text = demo_purchase_body\<rparr>)"
    by (simp add: falsy_def)
  have wrong: "\<exists>signature secret. x_signature (webhook_post ''1a99'' demo_purchase_body) = Some signature
        \<and> REVENUECAT_SECRET_API_KEY demo_env = Some secret
        \<and> \<not> verifySignature demo_platform (req_text (webhook_post ''1a99'' demo_purchase_body)) signature secret"
    by (simp add: webhook_post_def demo_env_def)
  from unsigned_webhook_rejected [OF disjI1, OF missing, of demo_env demo_platform demo_supabase demo_rows]
       unsigned_webhook_rejected [OF disjI2, OF wrong, of demo_supabase demo_rows]
  show ?thesis by (simp add: conf webhook_post_def)
qed

text \<open>
  The claim as stated fails: the method check and the configuration check stand before
  the signature gate, so a GET without the header is answered 405, and a POST without
  the header to a deployment without the webhook secret is answered 500.
\<close>

theorem unsigned_webhook_not_always_400:
  "falsy (x_signature \<lparr>req_method = ''GET'', x_signature = None, req_text = demo_purchase_body\<rparr>)
   \<and> status (fst (revenuecat_webhook demo_env demo_platform demo_supabase
                  \<lparr>req_method = ''GET'', x_signature = None, req_text = demo_purchase_body\<rparr> demo_rows)) = 405
   \<and> status (fst (revenuecat_webhook (demo_env\<lparr>REVENUECAT_SECRET_API_KEY := None\<rparr>) demo_platform demo_supabase
                  \<lparr>req_method = ''POST'', x_signature = None, req_text = demo_purchase_body\<rparr> demo_rows)) = 500"
  by (simp add: revenuecat_webhook_def falsy_def demo_env_def error_response_def json_response_def)

text \<open>
  Claim C3 does not hold of the code. The purchase case of the \<open>switch\<close> would set status,
  tier, expiry and customer id as the claim says (\<open>handle_purchase\<close>), but no delivery
  reaches it. The correctly signed INITIAL_PURCHASE for \<open>user-1\<close> with product
  \<open>yearly_premium\<close> is answered 400 \<open>Webhook signature verification failed\<close>, and the
  profile of \<open>user-1\<close> stays as it was, on the free tier. The defect is the one of claim
  C5: the binding of \<open>crypto\<close> in line 3.
\<close>

theorem signed_purchase_not_applied:
  "json_parse demo_platform demo_purchase_body = Inr demo_purchase
   \<and> revenuecat_webhook demo_env demo_platform demo_supabase
         (webhook_post demo_purchase_signature demo_purchase_body) demo_rows
       = (error_response 400 ''Webhook signature verification failed'', demo_rows)
   \<and> demo_rows ''user-1'' = Some free_profile"
proof -
  have "revenuecat_webhook demo_env demo_platform demo_supabase
          (webhook_post demo_purchase_signature demo_purchase_body) demo_rows
        = (error_response 400 ''Webhook signature verification failed'', demo_rows)"
    by (rule webhook_signed_post [OF demo_configured])
       (simp_all add: webhook_post_def falsy_def demo_purchase_signature_def)
  then show ?thesis by (simp add: demo_parsed demo_rows_def)
qed

text \<open>
  Claim C4 does not hold of the code. The cancellation case of the \<open>switch\<close> would set
  status and expiry and leave tier and customer id (\<open>handle_cancel\<close>), but no delivery
  reaches it. The correctly signed CANCELLATION for \<open>user-2\<close> is answered 400, and the
  profile of \<open>user-2\<close> keeps the status premium. The defect is the one of claim C5: the
  binding of \<open>crypto\<close> in line 3.
\<close>

theorem signed_cancellation_not_applied:
  "json_parse demo_platform demo_cancellation_body = Inr demo_cancellation
   \<and> revenuecat_webhook demo_env demo_platform demo_supabase
         (webhook_post demo_cancellation_signature demo_cancellation_body) demo_rows
       = (error_response 400 ''Webhook signature verification failed'', demo_rows)
   \<and> map_option subscription_status (demo_rows ''user-2'') = Some ''premium''"
proof -
  have "revenuecat_webhook demo_env demo_platform demo_supabase
          (webhook_post demo_cancellation_signature demo_cancellation_body) demo_rows
        = (error_response 400 ''Webhook signature verification failed'', demo_rows)"
    by (rule webhook_signed_post [OF demo_configured])
       (simp_all add: webhook_post_def falsy_def demo_cancellation_signature_def)
  then show ?thesis by (simp add: demo_parsed demo_rows_def paying_profile_def)
qed

text \<open>
  Claim C7. Delivering the same request a second time, at any later clock reading, leaves
  status, tier and expiry of every profile as the first delivery left them; this holds
  for every request, so for every delivery of an INITIAL_PURCHASE event. The purchase
  case of the \<open>switch\<close> is idempotent on the three fields in its own right: for every
  payload \<open>e\<close> taken as an INITIAL_PURCHASE event, every starting table and every outcome
  of the store, running it a second time changes none of them.
\<close>

theorem initial_purchase_idempotent:
  "subscription_fields (snd (revenuecat_webhook env (pf\<lparr>now_ms := later\<rparr>) sb req
                               (snd (revenuecat_webhook env pf sb req rows)))) u
     = subscription_fields (snd (revenuecat_webhook env pf sb req rows)) u
   \<and> subscription_fields (snd (handle_event (pf\<lparr>now_ms := later\<rparr>) sb (e\<lparr>event_type := ''INITIAL_PURCHASE''\<rparr>)
                               (snd (handle_event pf sb (e\<lparr>event_type := ''INITIAL_PURCHASE''\<rparr>) rows)))) u
     = subscription_fields (snd (handle_event pf sb (e\<lparr>event_type := ''INITIAL_PURCHASE''\<rparr>) rows)) u"
  by (simp only: webhook_never_writes handle_event_twice)

theorem initial_purchase_idempotent_witness:
  "subscription_fields
     (snd (revenuecat_webhook demo_env (demo_platform\<lparr>now_ms := 1753142400000\<rparr>) demo_supabase
             (webhook_post demo_purchase_signature demo_purchase_body)
             (snd (revenuecat_webhook demo_env demo_platform demo_supabase
                     (webhook_post demo_purchase_signature demo_purchase_body) demo_rows)))) ''user-1''
     = Some (''free'', ''free'', None)
   \<and> subscription_fields
       (snd (handle_event (demo_platform\<lparr>now_ms := 1753142400000\<rparr>) demo_supabase demo_purchase
               (snd (handle_event demo_platform demo_supabase demo_purchase demo_rows)))) ''user-1''
     = Some (''premium'', ''premium_plus'', Some ''2025-07-22T00:00:00.000Z'')"
proof -
  have "event_type demo_purchase \<in> {''INITIAL_PURCHASE'', ''RENEWAL'', ''RESTORE'', ''NON_RENEWING_PURCHASE''}"
    and "update_error demo_supabase = None"
    by (simp_all add: demo_purchase_def demo_supabase_def)
  from handle_purchase [OF this(1) demo_expiry(1) this(2), of demo_rows]
  have switch: "subscription_fields (snd (handle_event demo_platform demo_supabase demo_purchase demo_rows)) ''user-1''
          = Some (''premium'', ''premium_plus'', Some ''2025-07-22T00:00:00.000Z'')"
    by (simp add: subscription_fields_def demo_purchase_def demo_rows_def tier_of_product_def)
  have handler: "subscription_fields (snd (revenuecat_webhook demo_env demo_platform demo_supabase
                     (webhook_post demo_purchase_signature demo_purchase_body) demo_rows)) ''user-1''
          = Some (''free'', ''free'', None)"
    by (simp add: webhook_never_writes subscription_fields_def demo_rows_def free_profile_def)
  have same: "demo_purchase\<lparr>event_type := ''INITIAL_PURCHASE''\<rparr> = demo_purchase"
    by (simp add: demo_purchase_def)
  from initial_purchase_idempotent
         [where env = demo_env and pf = demo_platform and later = 1753142400000 and sb = demo_supabase
            and req = "webhook_post demo_purchase_signature demo_purchase_body" and rows = demo_rows
            and u = "''user-1''" and e = demo_purchase]
  show ?thesis by (simp only: same handler switch)
qed

text \<open>
  Claim C10 does not hold of the code. Both cases of the \<open>switch\<close> would write a null
  expiry for an event without the field (\<open>handle_purchase\<close>, \<open>handle_cancel\<close> with
  \<open>expires_iso_cases\<close>), but no delivery reaches them. The correctly signed RENEWAL for
  \<open>user-2\<close>, which has no expiry field, is answered 400, and the profile of \<open>user-2\<close>
  keeps the expiry it had. The defect is the one of claim C5: the binding of \<open>crypto\<close> in
  line 3.
\<close>

theorem signed_renewal_keeps_expiry:
  "json_parse demo_platform demo_renewal_body = Inr demo_renewal
   \<and> expires_date demo_renewal = None
   \<and> fst (revenuecat_webhook demo_env demo_platform demo_supabase
            (webhook_post demo_renewal_signature demo_renewal_body) demo_rows)
       = error_response 400 ''Webhook signature verification failed''
   \<and> map_option subscription_expires_at
         (snd (revenuecat_webhook demo_env demo_platform demo_supabase
                 (webhook_post demo_renewal_signature demo_renewal_body) demo_rows) ''user-2'')
       = Some (Some ''2025-06-30T00:00:00.000Z'')"
proof -
  have "revenuecat_webhook demo_env demo_platform demo_supabase
          (webhook_post demo_renewal_signature demo_renewal_body) demo_rows
        = (error_response 400 ''Webhook signature verification failed'', demo_rows)"
    by (rule webhook_signed_post [OF demo_configured])
       (simp_all add: webhook_post_def falsy_def demo_renewal_signature_def)
  then show ?thesis
    by (simp add: demo_parsed demo_renewal_def demo_rows_def paying_profile_def)
qed

section \<open>Properties of the subscription verifier\<close>

lemma verify_reaches_session:
  "verify_reaches env req sessionId userId \<Longrightarrow>
   verify_subscription env pf st sb req rows = verify_session env pf st sb sessionId userId rows"
  by (simp add: verify_reaches_def verify_subscription_def falsy_def)

lemma demo_verify_reaches: "sid \<noteq> [] \<Longrightarrow> verify_reaches demo_env (verify_post sid ''user-1'') sid ''user-1''"
  by (simp add: verify_reaches_def verify_post_def demo_env_def falsy_def)

lemma demo_period_end: "toISOString demo_platform (date_of_ms 1753142400000) = Inr ''2025-07-22T00:00:00.000Z''"
  by (simp add: toISOString_def date_of_ms_def demo_platform_def demo_iso_text_def)

text \<open>
  Claim C1, as amended. For a checkout session that the verifier retrieves, whose
  \<open>payment_status\<close> is not "paid" and whose \<open>status\<close> is not "complete", the answer is
  HTTP 200 with \<open>success: false\<close> and the table is unchanged: no subscription field of any
  profile is written.
\<close>

theorem unpaid_session_not_applied:
  assumes "verify_reaches env req sessionId userId"
      and "checkout_sessions_retrieve st sessionId = Inr (Some session)"
      and "payment_status session \<noteq> ''paid''"
      and "session_status session \<noteq> Some ''complete''"
  shows "status (fst (verify_subscription env pf st sb req rows)) = 200
         \<and> success_of (fst (verify_subscription env pf st sb req rows)) = Some (JBool False)
         \<and> snd (verify_subscription env pf st sb req rows) = rows"
  using assms(2-4)
  by (simp add: verify_reaches_session [OF assms(1)] verify_session_def json_response_def success_of_def)

theorem unpaid_session_witness:
  "status (fst (verify_subscription demo_env demo_platform demo_stripe demo_supabase
                  (verify_post ''cs_open'' ''user-1'') demo_rows)) = 200
   \<and> success_of (fst (verify_subscription demo_env demo_platform demo_stripe demo_supabase
                  (verify_post ''cs_open'' ''user-1'') demo_rows)) = Some (JBool False)
   \<and> snd (verify_subscription demo_env demo_platform demo_stripe demo_supabase
                  (verify_post ''cs_open'' ''user-1'') demo_rows) = demo_rows"
proof -
  have reach: "verify_reaches demo_env (verify_post ''cs_open'' ''user-1'') ''cs_open'' ''user-1''"
    by (rule demo_verify_reaches) simp
  have session: "checkout_sessions_retrieve demo_stripe ''cs_open''
      = Inr (Some \<lparr>payment_status = ''unpaid'', session_status = Some ''open'', session_subscription = None\<rparr>)"
    by (simp add: demo_stripe_def demo_sessions_retrieve_def)
  from unpaid_session_not_applied [OF reach session] show ?thesis by simp
qed

text \<open>
  The claim as stated fails: the check of line 122 joins the two conditions with \<open>&&\<close>,
  so a session counts as completed as soon as its \<open>status\<close> is "complete". A session
  that is complete while its payment is still unpaid is applied: the answer is 200
  with \<open>success: true\<close> and the profile becomes premium.
\<close>

theorem unpaid_complete_session_is_applied:
  "checkout_sessions_retrieve demo_stripe ''cs_unpaid_complete''
     = Inr (Some \<lparr>payment_status = ''unpaid'', session_status = Some ''complete'',
                   session_subscription = Some ''sub_m''\<rparr>)
   \<and> status (fst (verify_subscription demo_env demo_platform demo_stripe demo_supabase
                  (verify_post ''cs_unpaid_complete'' ''user-1'') demo_rows)) = 200
   \<and> success_of (fst (verify_subscription demo_env demo_platform demo_stripe demo_supabase
                  (verify_post ''cs_unpaid_complete'' ''user-1'') demo_rows)) = Some (JBool True)
   \<and> map_option subscription_status (demo_rows ''user-1'') = Some ''free''
   \<and> map_option subscription_status
         (snd (verify_subscription demo_env demo_platform demo_stripe demo_supabase
                 (verify_post ''cs_unpaid_complete'' ''user-1'') demo_rows) ''user-1'') = Some ''premium''"
proof -
  have reach: "verify_reaches demo_env (verify_post ''cs_unpaid_complete'' ''user-1'') ''cs_unpaid_complete'' ''user-1''"
    by (rule demo_verify_reaches) simp
  have session: "checkout_sessions_retrieve demo_stripe ''cs_unpaid_complete''
     = Inr (Some \<lparr>payment_status = ''unpaid'', session_status = Some ''complete'',
                   session_subscription = Some ''sub_m''\<rparr>)"
    by (simp add: demo_stripe_def demo_sessions_retrieve_def)
  have sub: "subscriptions_retrieve demo_stripe ''sub_m''
     = Inr \<lparr>item_price_ids = [''price_m''], current_period_end = 1753142400\<rparr>"
    by (simp add: demo_stripe_def demo_subscriptions_retrieve_def)
  have store: "update_error demo_supabase = None" and row: "demo_rows ''user-1'' = Some free_profile"
    by (simp_all add: demo_supabase_def demo_rows_def)
  have monthly: "STRIPE_PRICE_ID_MONTHLY demo_env = Some ''price_m''"
    by (simp add: demo_env_def)
  show ?thesis
    by (simp add: verify_reaches_session [OF reach] verify_session_def session sub falsy_def demo_period_end
          update_eq_def store row monthly Let_def json_response_def success_of_def free_profile_def)
qed

text \<open>
  Claim C9. For a completed session whose subscription is retrieved, with a first item of
  price id \<open>priceId\<close>, a current period end that is a valid time, the update accepted and
  a profile row for the user: the tier written to the row (and returned) is premium when
  \<open>priceId\<close> is the configured monthly price id and premium_plus for every other price
  id; the configured yearly id is not consulted.
\<close>

theorem verifier_tier_from_monthly_price:
  assumes "verify_reaches env req sessionId userId"
      and "checkout_sessions_retrieve st sessionId = Inr (Some session)"
      and "payment_status session = ''paid'' \<or> session_status session = Some ''complete''"
      and "session_subscription session = Some subscriptionId" and "subscriptionId \<noteq> []"
      and "subscriptions_retrieve st subscriptionId = Inr sub"
      and "item_price_ids sub = priceId # others"
      and "toISOString pf (date_of_ms (current_period_end sub * 1000)) = Inr expires"
      and "update_error sb = None"
      and "rows userId = Some p"
  shows "verify_subscription env pf st sb req rows =
           (let tier = (if STRIPE_PRICE_ID_MONTHLY env = Some priceId then ''premium'' else ''premium_plus'') in
            (json_response 200
               [(''success'', JBool True), (''subscription_status'', JStr ''premium''),
                (''subscription_tier'', JStr tier), (''subscription_expires_at'', JStr expires)],
             rows(userId \<mapsto> p\<lparr>subscription_status := ''premium'', subscription_tier := tier,
                                 subscription_expires_at := Some expires,
                                 updated_at := iso_text pf (now_ms pf)\<rparr>)))"
  using assms(2-)
  by (auto simp add: verify_reaches_session [OF assms(1)] verify_session_def falsy_def update_eq_def Let_def)

theorem verifier_tier_witness:
  "(\<exists>p'. snd (verify_subscription demo_env demo_platform demo_stripe demo_supabase
                 (verify_post ''cs_monthly'' ''user-1'') demo_rows) ''user-1'' = Some p'
          \<and> subscription_tier p' = ''premium'')
   \<and> (\<exists>p'. snd (verify_subscription demo_env demo_platform demo_stripe demo_supabase
                 (verify_post ''cs_other'' ''user-1'') demo_rows) ''user-1'' = Some p'
          \<and> subscription_tier p' = ''premium_plus'')"
proof -
  have reach: "verify_reaches demo_env (verify_post ''cs_monthly'' ''user-1'') ''cs_monthly'' ''user-1''"
              "verify_reaches demo_env (verify_post ''cs_other'' ''user-1'') ''cs_other'' ''user-1''"
    by (rule demo_verify_reaches, simp)+
  have session:
    "checkout_sessions_retrieve demo_stripe ''cs_monthly''
      = Inr (Some \<lparr>payment_status = ''paid'', session_status = Some ''complete'', session_subscription = Some ''sub_m''\<rparr>)"
    "checkout_sessions_retrieve demo_stripe ''cs_other''
      = Inr (Some \<lparr>payment_status = ''paid'', session_status = Some ''complete'', session_subscription = Some ''sub_x''\<rparr>)"
    by (simp_all add: demo_stripe_def demo_sessions_retrieve_def)
  have sub:
    "subscriptions_retrieve demo_stripe ''sub_m'' = Inr \<lparr>item_price_ids = [''price_m''], current_period_end = 1753142400\<rparr>"
    "subscriptions_retrieve demo_stripe ''sub_x'' = Inr \<lparr>item_price_ids = [''price_legacy''], current_period_end = 1753142400\<rparr>"
    by (simp_all add: demo_stripe_def demo_subscriptions_retrieve_def)
  have store: "update_error demo_supabase = None" and row: "demo_rows ''user-1'' = Some free_profile"
    by (simp_all add: demo_supabase_def demo_rows_def)
  have monthly: "STRIPE_PRICE_ID_MONTHLY demo_env = Some ''price_m''"
    by (simp add: demo_env_def)
  from verifier_tier_from_monthly_price [where rows = demo_rows and pf = demo_platform and sb = demo_supabase
            and priceId = "''price_m''" and others = "[]" and expires = "''2025-07-22T00:00:00.000Z''",
          OF reach(1) session(1) _ _ _ sub(1) _ _ store row]
       verifier_tier_from_monthly_price [where rows = demo_rows and pf = demo_platform and sb = demo_supabase
            and priceId = "''price_legacy''" and others = "[]" and expires = "''2025-07-22T00:00:00.000Z''",
          OF reach(2) session(2) _ _ _ sub(2) _ _ store row]
  show ?thesis by (simp add: demo_period_end monthly Let_def)
qed

section \<open>Properties of the billing customer id\<close>

lemma update_eq_keeps_customer:
  assumes "\<And>p. revenuecat_user_id p \<noteq> None \<Longrightarrow> revenuecat_user_id (values p) \<noteq> None"
      and "has_customer_id rows u"
  shows "has_customer_id (snd (update_eq sb values uid rows)) u"
  using assms by (auto simp: update_eq_def has_customer_id_def split: option.splits)

lemma handle_event_keeps_customer:
  "has_customer_id rows u \<Longrightarrow> has_customer_id (snd (handle_event pf sb e rows)) u"
  unfolding handle_event_def Let_def
  by (auto split: sum.splits prod.splits option.splits
        dest!: arg_cong [where f = snd] intro!: update_eq_keeps_customer simp: update_eq_keeps_customer)

lemma webhook_keeps_customer:
  "has_customer_id rows u \<Longrightarrow> has_customer_id (snd (revenuecat_webhook env pf sb req rows)) u"
  using handle_event_keeps_customer [of rows u pf sb]
  by (auto simp: revenuecat_webhook_def Let_def split: sum.splits prod.splits dest!: arg_cong [where f = snd])

lemma verify_session_keeps_customer:
  "has_customer_id rows u \<Longrightarrow> has_customer_id (snd (verify_session env pf st sb sessionId userId rows)) u"
  unfolding verify_session_def Let_def
  by (auto split: sum.splits prod.splits option.splits list.splits
        dest!: arg_cong [where f = snd] simp: update_eq_keeps_customer)

lemma verify_keeps_customer:
  "has_customer_id rows u \<Longrightarrow> has_customer_id (snd (verify_subscription env pf st sb req rows)) u"
  by (auto simp: verify_subscription_def verify_session_keeps_customer split: sum.splits)

lemma resolve_keeps_customer:
  "has_customer_id rows u \<Longrightarrow>
   has_customer_id (fst (snd (resolve_customer st sb userId email name profile rows))) u"
  unfolding resolve_customer_def Let_def
  by (auto split: sum.splits simp: update_eq_keeps_customer)

lemma checkout_keeps_customer:
  "has_customer_id rows u \<Longrightarrow> has_customer_id (fst (snd (create_checkout_session env pf st sb req rows))) u"
  using resolve_keeps_customer [of rows u st sb]
  by (auto simp: create_checkout_session_def Let_def split: sum.splits prod.splits
        dest!: arg_cong [where f = "\<lambda>r. fst (snd r)"])

lemma signup_keeps_customer:
  "has_customer_id rows u \<Longrightarrow> has_customer_id (fst (snd (create_stripe_customer env st sb req rows))) u"
  unfolding create_stripe_customer_def Let_def
  by (auto split: sum.splits prod.splits option.splits
        dest!: arg_cong [where f = snd] simp: update_eq_keeps_customer)

lemma run_op_keeps_customer: "has_customer_id rows u \<Longrightarrow> has_customer_id (run_op op rows) u"
  by (cases op)
     (simp_all add: webhook_keeps_customer verify_keeps_customer checkout_keeps_customer signup_keeps_customer)

text \<open>
  Claim C6. A profile whose billing customer id (\<open>revenuecat_user_id\<close>) is non-null keeps
  a non-null one through every sequence of operations that write the table: webhook
  processing, subscription verification, checkout customer resolution and the
  signup-triggered customer creation, each with any configuration, any request and any
  outcome of its external calls. Every write of the field in the four handlers stores a
  string.
\<close>

theorem customer_id_never_cleared:
  "has_customer_id rows u \<Longrightarrow> has_customer_id (fold run_op ops rows) u"
  by (induction ops arbitrary: rows) (simp_all add: run_op_keeps_customer)

theorem customer_id_never_cleared_witness:
  "has_customer_id demo_rows ''user-2''
   \<and> has_customer_id
        (fold run_op
           [WebhookOp demo_env demo_platform demo_supabase (webhook_post ''1a3d'' demo_renewal_body),
            VerifyOp demo_env demo_platform demo_stripe demo_supabase (verify_post ''cs_monthly'' ''user-2''),
            CheckoutOp demo_env demo_platform demo_stripe demo_supabase (checkout_post ''price_m'' ''user-2''),
            SignupOp demo_env demo_stripe demo_supabase (signup_post ''user-2'')]
           demo_rows) ''user-2''"
proof -
  have start: "has_customer_id demo_rows ''user-2''"
    by (simp add: has_customer_id_def demo_rows_def paying_profile_def)
  from customer_id_never_cleared [OF start] start show ?thesis by blast
qed

section \<open>Properties of customer resolution\<close>

lemma checkout_reaches_resolution:
  assumes "checkout_reaches env sb req rd"
  shows "create_checkout_session env pf st sb req rows =
           (case resolve_customer st sb (the (cr_userId rd)) (the (cr_email rd)) (cr_name rd)
                   (rows (the (cr_userId rd))) rows of
              (Inl stripeError, rows', calls) \<Rightarrow>
                (error_response 500 ''Failed to create Stripe customer'', rows', calls)
            | (Inr customerId, rows', calls) \<Rightarrow>
                (let ps = checkout_params env pf customerId (the (cr_priceId rd)) (the (cr_userId rd))
                 in case checkout_sessions_create st ps of
                      Inl stripeError \<Rightarrow>
                        (error_response 500 (message stripeError), rows', calls @ [CheckoutSessionsCreate ps])
                    | Inr (url, session_id) \<Rightarrow>
                        (json_response 200
                           [(''success'', JBool True), (''url'', JStr url), (''session_id'', JStr session_id)],
                         rows', calls @ [CheckoutSessionsCreate ps])))"
  using assms
  by (auto simp: checkout_reaches_def create_checkout_session_def Let_def falsy_def split: option.splits)

lemma resolve_reuse:
  assumes "stored_customer rows userId = Some customerId" and "customerId \<noteq> []"
      and "customers_retrieve st customerId = Inr ()"
  shows "resolve_customer st sb userId email name (rows userId) rows
           = (Inr customerId, rows, [CustomersRetrieve customerId])"
  using assms by (simp add: resolve_customer_def stored_customer_def falsy_def Let_def)

lemma resolve_create:
  assumes "falsy (stored_customer rows userId)
           \<or> (\<exists>stripeError. customers_retrieve st (the (stored_customer rows userId)) = Inl stripeError)"
  shows "\<exists>before.
           before = (if falsy (stored_customer rows userId) then []
                     else [CustomersRetrieve (the (stored_customer rows userId))]) \<and>
           resolve_customer st sb userId email name (rows userId) rows =
           (let ps = \<lparr>cp_email = email, cp_name = (if falsy name then split_at_0 email else the name),
                      cp_metadata = [(''userId'', userId)]\<rparr>
            in case customers_create st ps of
                 Inl stripeError \<Rightarrow> (Inl stripeError, rows, before @ [CustomersCreate ps])
               | Inr customer_id \<Rightarrow>
                   (Inr customer_id,
                    snd (update_eq sb (\<lambda>p. p\<lparr>revenuecat_user_id := Some customer_id\<rparr>) userId rows),
                    before @ [CustomersCreate ps]))"
  using assms by (auto simp: resolve_customer_def stored_customer_def Let_def split: sum.splits)

lemma demo_checkout_reaches:
  "checkout_reaches demo_env sb (checkout_post ''price_m'' userId) (checkout_body ''price_m'' userId)
     \<longleftrightarrow> userId \<noteq> [] \<and> select_error sb = None"
  by (auto simp: checkout_reaches_def checkout_post_def checkout_body_def demo_env_def missingVars_def falsy_def)

lemma demo_stored:
  "stored_customer demo_rows ''user-1'' = None"
  "stored_customer demo_rows ''user-2'' = Some ''cus_1''"
  "stored_customer demo_rows ''user-3'' = Some ''cus_gone''"
  by (simp_all add: stored_customer_def demo_rows_def free_profile_def paying_profile_def stale_profile_def)

text \<open>
  Claim C8, as amended. For a checkout request that reaches customer resolution: when the
  profile stores a non-empty customer id and the provider's retrieval of it returns, no
  customer is created, the table is unchanged and the checkout session is created for the
  stored id. When the stored id is absent (no row, null or empty) or the retrieval
  throws, exactly one customer creation is requested, with the request's email, name and
  user id; and when the provider returns the new customer, the profile row exists and the
  store accepts the update, the new id is written to that row and to no other.
\<close>

theorem customer_resolution:
  assumes "checkout_reaches env sb req rd"
  shows "(\<forall>customerId. stored_customer rows (the (cr_userId rd)) = Some customerId \<and> customerId \<noteq> []
            \<and> customers_retrieve st customerId = Inr () \<longrightarrow>
            fst (snd (create_checkout_session env pf st sb req rows)) = rows
            \<and> filter is_create (snd (snd (create_checkout_session env pf st sb req rows))) = []
            \<and> CheckoutSessionsCreate (checkout_params env pf customerId (the (cr_priceId rd)) (the (cr_userId rd)))
                 \<in> set (snd (snd (create_checkout_session env pf st sb req rows))))
       \<and> (falsy (stored_customer rows (the (cr_userId rd)))
            \<or> (\<exists>stripeError. customers_retrieve st (the (stored_customer rows (the (cr_userId rd)))) = Inl stripeError) \<longrightarrow>
            filter is_create (snd (snd (create_checkout_session env pf st sb req rows)))
              = [CustomersCreate (new_customer_params rd)]
            \<and> (\<forall>customer_id p. customers_create st (new_customer_params rd) = Inr customer_id
                  \<and> update_error sb = None \<and> rows (the (cr_userId rd)) = Some p \<longrightarrow>
                  fst (snd (create_checkout_session env pf st sb req rows))
                    = rows(the (cr_userId rd) \<mapsto> p\<lparr>revenuecat_user_id := Some customer_id\<rparr>)))"
proof (intro conjI allI impI)
  fix customerId
  assume a: "stored_customer rows (the (cr_userId rd)) = Some customerId \<and> customerId \<noteq> []
            \<and> customers_retrieve st customerId = Inr ()"
  then have r: "resolve_customer st sb (the (cr_userId rd)) (the (cr_email rd)) (cr_name rd)
                   (rows (the (cr_userId rd))) rows = (Inr customerId, rows, [CustomersRetrieve customerId])"
    by (simp add: resolve_reuse)
  show "fst (snd (create_checkout_session env pf st sb req rows)) = rows"
    by (simp add: checkout_reaches_resolution [OF assms] r Let_def split: sum.splits prod.splits)
  show "filter is_create (snd (snd (create_checkout_session env pf st sb req rows))) = []"
    by (simp add: checkout_reaches_resolution [OF assms] r Let_def split: sum.splits prod.splits)
  show "CheckoutSessionsCreate (checkout_params env pf customerId (the (cr_priceId rd)) (the (cr_userId rd)))
                 \<in> set (snd (snd (create_checkout_session env pf st sb req rows)))"
    by (simp add: checkout_reaches_resolution [OF assms] r Let_def split: sum.splits prod.splits)
next
  assume a: "falsy (stored_customer rows (the (cr_userId rd)))
            \<or> (\<exists>stripeError. customers_retrieve st (the (stored_customer rows (the (cr_userId rd)))) = Inl stripeError)"
  from resolve_create [OF a, of sb "the (cr_email rd)" "cr_name rd"]
  show "filter is_create (snd (snd (create_checkout_session env pf st sb req rows)))
              = [CustomersCreate (new_customer_params rd)]"
    by (auto simp add: checkout_reaches_resolution [OF assms] new_customer_params_def Let_def
          split: sum.splits prod.splits)
next
  fix customer_id p
  assume a: "falsy (stored_customer rows (the (cr_userId rd)))
            \<or> (\<exists>stripeError. customers_retrieve st (the (stored_customer rows (the (cr_userId rd)))) = Inl stripeError)"
    and b: "customers_create st (new_customer_params rd) = Inr customer_id
                  \<and> update_error sb = None \<and> rows (the (cr_userId rd)) = Some p"
  from resolve_create [OF a, of sb "the (cr_email rd)" "cr_name rd"] b
  show "fst (snd (create_checkout_session env pf st sb req rows))
                    = rows(the (cr_userId rd) \<mapsto> p\<lparr>revenuecat_user_id := Some customer_id\<rparr>)"
    by (auto simp add: checkout_reaches_resolution [OF assms] new_customer_params_def Let_def update_eq_def
          split: sum.splits prod.splits)
qed

theorem customer_resolution_witness:
  "fst (snd (create_checkout_session demo_env demo_platform demo_stripe demo_supabase
               (checkout_post ''price_m'' ''user-2'') demo_rows)) = demo_rows
   \<and> filter is_create (snd (snd (create_checkout_session demo_env demo_platform demo_stripe demo_supabase
               (checkout_post ''price_m'' ''user-2'') demo_rows))) = []
   \<and> length (filter is_create (snd (snd (create_checkout_session demo_env demo_platform demo_stripe demo_supabase
               (checkout_post ''price_m'' ''user-3'') demo_rows)))) = 1
   \<and> fst (snd (create_checkout_session demo_env demo_platform demo_stripe demo_supabase
               (checkout_post ''price_m'' ''user-3'') demo_rows))
       = demo_rows(''user-3'' \<mapsto> stale_profile\<lparr>revenuecat_user_id := Some ''cus_new''\<rparr>)"
proof -
  have reach: "checkout_reaches demo_env demo_supabase (checkout_post ''price_m'' ''user-2'') (checkout_body ''price_m'' ''user-2'')"
              "checkout_reaches demo_env demo_supabase (checkout_post ''price_m'' ''user-3'') (checkout_body ''price_m'' ''user-3'')"
    by (simp_all add: demo_checkout_reaches demo_supabase_def)
  have uid: "the (cr_userId (checkout_body ''price_m'' u)) = u" for u
    by (simp add: checkout_body_def)
  have known: "customers_retrieve demo_stripe ''cus_1'' = Inr ()"
    and gone: "customers_retrieve demo_stripe ''cus_gone'' = Inl (Error ''No such customer'')"
    and created: "customers_create demo_stripe ps = Inr ''cus_new''" for ps
    by (simp_all add: demo_stripe_def)
  have store: "update_error demo_supabase = None" and row: "demo_rows ''user-3'' = Some stale_profile"
    by (simp_all add: demo_supabase_def demo_rows_def)
  from customer_resolution [OF reach(1), of demo_rows demo_stripe demo_platform]
       customer_resolution [OF reach(2), of demo_rows demo_stripe demo_platform]
  show ?thesis
    by (simp add: uid demo_stored known gone created store row falsy_def)
qed

text \<open>
  The claim as stated fails: an error of the update is logged and the checkout goes on
  with the new customer (lines 192 to 196). With a store that rejects the update, a user
  without a stored id gets a new provider customer and a checkout session, the answer is
  200 with \<open>success: true\<close>, and the profile still has no customer id.
\<close>

theorem new_customer_not_always_persisted:
  "falsy (stored_customer demo_rows ''user-1'')
   \<and> fst (create_checkout_session demo_env demo_platform demo_stripe failing_store
             (checkout_post ''price_m'' ''user-1'') demo_rows)
       = json_response 200 [(''success'', JBool True), (''url'', JStr ''https://checkout.example/cs_new''),
                            (''session_id'', JStr ''cs_new'')]
   \<and> length (filter is_create (snd (snd (create_checkout_session demo_env demo_platform demo_stripe failing_store
             (checkout_post ''price_m'' ''user-1'') demo_rows)))) = 1
   \<and> stored_customer (fst (snd (create_checkout_session demo_env demo_platform demo_stripe failing_store
             (checkout_post ''price_m'' ''user-1'') demo_rows))) ''user-1'' = None"
proof -
  have reach: "checkout_reaches demo_env failing_store (checkout_post ''price_m'' ''user-1'') (checkout_body ''price_m'' ''user-1'')"
    by (simp add: demo_checkout_reaches failing_store_def)
  have resolve: "resolve_customer demo_stripe failing_store ''user-1'' email name (demo_rows ''user-1'') demo_rows
      = (Inr ''cus_new'', demo_rows,
         [CustomersCreate \<lparr>cp_email = email, cp_name = (if falsy name then split_at_0 email else the name),
            cp_metadata = [(''userId'', ''user-1'')]\<rparr>])" for email name
    by (simp add: resolve_customer_def demo_rows_def free_profile_def falsy_def demo_stripe_def Let_def
          update_eq_def failing_store_def)
  have session: "checkout_sessions_create demo_stripe ps = Inr (''https://checkout.example/cs_new'', ''cs_new'')" for ps
    by (simp add: demo_stripe_def)
  show ?thesis
    by (simp add: checkout_reaches_resolution [OF reach] checkout_body_def resolve session demo_stored falsy_def Let_def)
qed

end
